theory Spec2Isabelle
  imports Complex_Main "HOL-Library.Word"
begin

chapter \<open>The model\<close>

section \<open>Front-end data model (frontend/types/api.ts)\<close>

text \<open>
  A JavaScript string is a sequence of UTF-16 code units and \<open>.length\<close> counts code
  units, so user-supplied strings are lists of 16-bit words.  The fixed ASCII messages of
  the source are HOL strings.  A JavaScript \<open>number\<close> is modelled by a real (rounding and
  NaN are outside the model); an optional field \<open>f?: T\<close> is a \<open>T option\<close>.
\<close>

type_synonym jsstring = "16 word list"

record QuestionRequest =
  question :: jsstring

text \<open>
  Field names are global in a theory, so a name that two interfaces share is prefixed in
  all but one of them: \<open>HackRXRequest.questions\<close> is \<open>req_questions\<close>,
  \<open>AnswerResponse.question\<close> is \<open>answer_question\<close>, \<open>HackRXResponse.document_url\<close> is
  \<open>response_document_url\<close> and \<open>ErrorResponse.success\<close> is \<open>error_success\<close>.
\<close>

record HackRXRequest =
  document_url :: jsstring
  req_questions :: "QuestionRequest list"

record AnswerResponse =
  answer_question :: jsstring
  answer :: jsstring
  sources :: "jsstring list"
  confidence :: "real option"

record HackRXResponse =
  success :: bool
  response_document_url :: jsstring
  answers :: "AnswerResponse list"
  processing_time_ms :: "real option"

record ErrorResponse =
  error_success :: bool
  error :: string
  details :: "string option"


section \<open>The document form (frontend/components/DocumentForm.tsx)\<close>

record FormData =
  documentUrl :: jsstring
  questions :: "QuestionRequest list"


text \<open>
  \<open>useFieldArray\<close>: \<open>append v\<close> adds \<open>v\<close> at the end of the form's current \<open>questions\<close>
  array, and \<open>remove index\<close> splices one element out of it at \<open>index\<close> (a splice past the
  end removes nothing).
\<close>

definition append_field :: "QuestionRequest \<Rightarrow> QuestionRequest list \<Rightarrow> QuestionRequest list" where
  "append_field v field_list = field_list @ [v]"

definition remove_field :: "nat \<Rightarrow> QuestionRequest list \<Rightarrow> QuestionRequest list" where
  "remove_field index field_list = take index field_list @ drop (Suc index) field_list"

text \<open>
  The component's state has two parts.  \<open>form_values\<close> is the value react-hook-form
  holds now: \<open>append\<close> and \<open>remove\<close> act on its \<open>questions\<close>.  \<open>rendered_fields\<close> is the
  \<open>fields\<close> array of the last render: \<open>addQuestion\<close> and \<open>removeQuestion\<close> are closures
  made by that render, and the \<open>fields.length\<close> their guards read is its length.  A
  re-render brings \<open>rendered_fields\<close> up to date.
\<close>

record form_state =
  form_values :: FormData
  rendered_fields :: "QuestionRequest list"


definition addQuestion :: "form_state \<Rightarrow> form_state" where
  "addQuestion s =
     (if length (rendered_fields s) < 10
      then s\<lparr>form_values :=
               (form_values s)\<lparr>questions :=
                  append_field \<lparr>question = []\<rparr> (questions (form_values s))\<rparr>\<rparr>
      else s)"

definition removeQuestion :: "nat \<Rightarrow> form_state \<Rightarrow> form_state" where
  "removeQuestion index s =
     (if length (rendered_fields s) > 1
      then s\<lparr>form_values :=
               (form_values s)\<lparr>questions := remove_field index (questions (form_values s))\<rparr>\<rparr>
      else s)"










section \<open>Form validation and submission (DocumentForm.tsx and the page's handlers)\<close>

text \<open>
  A zod issue: where in the value it was found, and the message the schema gives.
\<close>

datatype path_elem = Key string | Idx nat

record ZodIssue =
  path :: "path_elem list"
  message :: string

text \<open>
  \<open>z.string().min(1, ...).max(1000, ...)\<close> on the \<open>question\<close> of element \<open>i\<close>.
\<close>

definition question_issues :: "nat \<Rightarrow> QuestionRequest \<Rightarrow> ZodIssue list" where
  "question_issues i q =
     (if length (question q) < 1
      then [\<lparr>path = [Key ''questions'', Idx i, Key ''question''],
             message = ''Question cannot be empty''\<rparr>]
      else [])
     @ (if length (question q) > 1000
        then [\<lparr>path = [Key ''questions'', Idx i, Key ''question''],
               message = ''Question too long''\<rparr>]
        else [])"

text \<open>
  \<open>formSchema\<close>, read as the list of issues zod reports for a value (none: the value
  parses).  \<open>z.string().url()\<close> is zod's own test; it is the parameter \<open>valid_url\<close>.
  An array schema checks its length bounds and then each element.
\<close>

definition formSchema :: "(jsstring \<Rightarrow> bool) \<Rightarrow> FormData \<Rightarrow> ZodIssue list" where
  "formSchema valid_url d =
     (if valid_url (documentUrl d) then []
      else [\<lparr>path = [Key ''documentUrl''], message = ''Please enter a valid URL''\<rparr>])
     @ (if length (questions d) < 1
        then [\<lparr>path = [Key ''questions''], message = ''At least one question is required''\<rparr>]
        else [])
     @ (if length (questions d) > 10
        then [\<lparr>path = [Key ''questions''], message = ''Maximum 10 questions allowed''\<rparr>]
        else [])
     @ concat (map (\<lambda>(i, q). question_issues i q) (enumerate 0 (questions d)))"

text \<open>
  \<open>handleFormSubmit\<close> of the page builds the request; \<open>mutationFn\<close> throws an
  \<open>ErrorResponse\<close> when no bearer token is set and otherwise hands the request to
  \<open>apiClient.processDocument\<close> (the API client is not part of the sources: \<open>Inr\<close> is the
  request it is called with).
\<close>

definition handleFormSubmit :: "FormData \<Rightarrow> HackRXRequest" where
  "handleFormSubmit formData =
     \<lparr>document_url = documentUrl formData, req_questions = questions formData\<rparr>"

definition mutationFn :: "jsstring \<Rightarrow> HackRXRequest \<Rightarrow> ErrorResponse + HackRXRequest" where
  "mutationFn bearerToken data =
     (if bearerToken = []
      then Inl \<lparr>error_success = False, error = ''Bearer token required'',
                details = Some ''Please enter your API bearer token in settings''\<rparr>
      else Inr data)"

text \<open>
  Submitting the form, \<open>onSubmit={handleSubmit(onSubmit)}\<close> with the page's
  \<open>handleFormSubmit\<close> as \<open>onSubmit\<close>: the resolver runs \<open>formSchema\<close>, and \<open>onSubmit\<close> is
  called only on a value without issues; otherwise the issues become the form's errors
  and nothing is sent.
\<close>

datatype submit_outcome =
    ValidationErrors "ZodIssue list"
  | MutationError ErrorResponse
  | Dispatched HackRXRequest

definition submit_form :: "(jsstring \<Rightarrow> bool) \<Rightarrow> jsstring \<Rightarrow> FormData \<Rightarrow> submit_outcome" where
  "submit_form valid_url bearerToken d =
     (case formSchema valid_url d of
        [] \<Rightarrow> (case mutationFn bearerToken (handleFormSubmit d) of
                 Inl e \<Rightarrow> MutationError e
               | Inr request \<Rightarrow> Dispatched request)
      | issue # rest \<Rightarrow> ValidationErrors (issue # rest))"


section \<open>The results view (frontend/components/AnswerDisplay.tsx and the page)\<close>

text \<open>
  \<open>str.split('/')\<close> and \<open>.pop()\<close>: the segments between slashes (at least one, possibly
  empty), and the last of them.
\<close>

fun split_on :: "'a \<Rightarrow> 'a list \<Rightarrow> 'a list list" where
  "split_on c [] = [[]]"
| "split_on c (x # xs) =
     (if x = c then [] # split_on c xs
      else (case split_on c xs of
              [] \<Rightarrow> [[x]]
            | seg # segs \<Rightarrow> (x # seg) # segs))"

definition last_segment :: "jsstring \<Rightarrow> jsstring" where
  "last_segment pathname = last (split_on 0x2F pathname)"

text \<open>
  \<open>answer.confidence || 0\<close>: an absent confidence and the confidence 0 both count 0.
\<close>

definition confidence_or_zero :: "AnswerResponse \<Rightarrow> real" where
  "confidence_or_zero a = (case confidence a of None \<Rightarrow> 0 | Some c \<Rightarrow> if c = 0 then 0 else c)"

text \<open>
  JavaScript's \<open>/\<close> gives NaN or an infinity on a zero divisor; \<open>None\<close> stands for
  these non-finite results.
\<close>

definition js_divide :: "real \<Rightarrow> real \<Rightarrow> real option" where
  "js_divide a b = (if b = 0 then None else Some (a / b))"

text \<open>
  The summary's "Average confidence":
  \<open>formatConfidence(answers.reduce((acc, answer) => acc + (answer.confidence || 0), 0) / answers.length)\<close>.
  \<open>formatConfidence\<close> comes from \<open>@/lib/utils\<close>, which is not part of the sources; it is
  a parameter.  The result is \<open>None\<close> only for a non-finite quotient.
\<close>

definition summary_average :: "(real \<Rightarrow> string) \<Rightarrow> AnswerResponse list \<Rightarrow> string option" where
  "summary_average formatConfidence as =
     map_option formatConfidence
       (js_divide (foldl (\<lambda>acc a. acc + confidence_or_zero a) 0 as) (real (length as)))"

text \<open>
  \<open>{processingTime && (...)}\<close>: nothing for an absent time, the bare \<open>0\<close> for the time 0
  (React prints the number), and the "Processed in" item otherwise.
  \<open>formatProcessingTime\<close> is a parameter like \<open>formatConfidence\<close>.
\<close>

datatype time_slot = NoTime | ZeroText | ProcessedIn string

definition time_item_of :: "(real \<Rightarrow> string) \<Rightarrow> real option \<Rightarrow> time_slot" where
  "time_item_of formatProcessingTime processingTime =
     (case processingTime of
        None \<Rightarrow> NoTime
      | Some t \<Rightarrow> if t = 0 then ZeroText else ProcessedIn (formatProcessingTime t))"

datatype render_error = TypeError

record results_view =
  document_label :: jsstring
  time_item :: time_slot
  cards :: "(nat \<times> AnswerResponse) list"
  answered_count :: nat
  plural_suffix :: string
  average_confidence :: "string option"

text \<open>
  \<open>AnswerDisplay\<close>.  \<open>Inr None\<close> is the \<open>null\<close> it returns without answers (the
  \<open>answers\<close> prop may be absent at run time: it is an option).  The platform's URL parser
  is a parameter: \<open>url_pathname u\<close> is the \<open>pathname\<close> of \<open>new URL(u)\<close>, or \<open>None\<close> where
  the constructor throws a TypeError.  A card is an answer with its index.
\<close>

definition AnswerDisplay ::
  "(jsstring \<Rightarrow> jsstring option) \<Rightarrow> (real \<Rightarrow> string) \<Rightarrow> (real \<Rightarrow> string) \<Rightarrow>
   AnswerResponse list option \<Rightarrow> jsstring \<Rightarrow> real option \<Rightarrow> render_error + results_view option" where
  "AnswerDisplay url_pathname formatConfidence formatProcessingTime answers_prop documentUrl_prop processingTime =
     (case answers_prop of
        None \<Rightarrow> Inr None
      | Some as \<Rightarrow>
          if length as = 0 then Inr None
          else (case url_pathname documentUrl_prop of
                  None \<Rightarrow> Inl TypeError
                | Some pathname \<Rightarrow>
                    Inr (Some
                      \<lparr>document_label = last_segment pathname,
                       time_item = time_item_of formatProcessingTime processingTime,
                       cards = enumerate 0 as,
                       answered_count = length as,
                       plural_suffix = (if length as \<noteq> 1 then ''s'' else []),
                       average_confidence = summary_average formatConfidence as\<rparr>)))"


section \<open>Chunker (specification 4.1)\<close>

text \<open>
  The back end is not among the sources; the two components below are modelled from the
  specification.  A text is a list of characters of any type.
\<close>

text \<open>
  Modelled from the spec: the Chunk of the data model (the chunker's code is missing from
  the sources); its \<open>index\<close> and \<open>text\<close> are \<open>chunk_index\<close> and \<open>text_span\<close> here.
\<close>

record 'a Chunk =
  chunk_index :: nat
  text_span :: "'a list"
  char_start :: nat
  char_end :: nat

datatype chunk_error = EmptyText | InvalidWindow

text \<open>
  Modelled from the spec: the chunker's sliding window (its code is missing from the
  sources).  A window of \<open>window_size\<close> characters starts at \<open>start\<close> and the next one
  starts \<open>step = window_size - overlap\<close> further; the window that reaches the end of the
  text is the last one and may be shorter, so a text of at most \<open>window_size\<close> characters
  gives a single chunk.  Under the constraint \<open>overlap < window_size\<close> the step is
  positive; the test \<open>0 < step\<close> makes the recursion total for every argument.
\<close>

function windows :: "nat \<Rightarrow> nat \<Rightarrow> 'a list \<Rightarrow> nat \<Rightarrow> nat \<Rightarrow> 'a Chunk list" where
  "windows window_size step t i start =
     \<lparr>chunk_index = i,
      text_span = take window_size (drop start t),
      char_start = start,
      char_end = min (start + window_size) (length t)\<rparr>
     # (if start + window_size < length t \<and> 0 < step
        then windows window_size step t (Suc i) (start + step)
        else [])"
  by pat_completeness auto
termination
  by (relation "measure (\<lambda>(window_size, step, t, i, start). length t - start)") auto

declare windows.simps [simp del]

text \<open>
  Modelled from the spec: \<open>chunk(text, window_size, overlap)\<close> with its constraints
  \<open>0 \<le> overlap < window_size\<close> and a non-empty text; a violation is an error value (the
  chunker's code is missing from the sources).
\<close>

definition chunk :: "'a list \<Rightarrow> int \<Rightarrow> int \<Rightarrow> chunk_error + 'a Chunk list" where
  "chunk t window_size overlap =
     (if t = [] then Inl EmptyText
      else if \<not> (0 \<le> overlap \<and> overlap < window_size) then Inl InvalidWindow
      else Inr (windows (nat window_size) (nat (window_size - overlap)) t 0 0))"

text \<open>
  Modelled from the spec: reassembly, as the round-trip property words it (no code for it
  is among the sources).  The chunks' texts in order, each chunk after the first without
  the \<open>overlap\<close> leading characters it shares with its predecessor; the first chunk has
  no predecessor and is kept whole.
\<close>

definition reassemble :: "nat \<Rightarrow> 'a Chunk list \<Rightarrow> 'a list" where
  "reassemble overlap cs =
     (case cs of
        [] \<Rightarrow> []
      | c # later \<Rightarrow> text_span c @ concat (map (\<lambda>c'. drop overlap (text_span c')) later))"


section \<open>Answer synthesizer (specification 4.6)\<close>

text \<open>
  The errors the specification names for the external services.
\<close>

datatype service_error =
    RateLimited
  | InvalidInput
  | ServiceUnavailable
  | QuotaExceeded
  | ContentFiltered

text \<open>
  Modelled from the spec: the Answer Record of the data model (the synthesizer's code is
  missing from the sources); its \<open>question\<close>, \<open>sources\<close> and \<open>confidence\<close> carry the
  prefix \<open>record_\<close> here.
\<close>

record AnswerRecord =
  record_question :: string
  answer_text :: string
  record_sources :: "string list"
  record_confidence :: "real option"

text \<open>
  Modelled from the spec: what the language-model service returned, the raw text and the
  fields read from it (the synthesizer's code is missing from the sources).  A field may
  be missing, and the confidence may be something that is not a number.
\<close>

datatype confidence_value = Numeric real | NonNumeric string

record ModelOutput =
  raw_text :: string
  answer_field :: "string option"
  sources_field :: "string list option"
  confidence_field :: "confidence_value option"

datatype parsed_output = WellFormed AnswerRecord | Malformed string

text \<open>
  Modelled from the spec: the synthesizer's parser (its code is missing from the sources).
  The output is well formed when the answer, the sources and a numeric confidence are all
  there; otherwise it is malformed and only its raw text is kept.
\<close>

definition parse_output :: "string \<Rightarrow> ModelOutput \<Rightarrow> parsed_output" where
  "parse_output q out =
     (case answer_field out of
        None \<Rightarrow> Malformed (raw_text out)
      | Some a \<Rightarrow>
          (case sources_field out of
             None \<Rightarrow> Malformed (raw_text out)
           | Some used \<Rightarrow>
               (case confidence_field out of
                  None \<Rightarrow> Malformed (raw_text out)
                | Some (NonNumeric s) \<Rightarrow> Malformed (raw_text out)
                | Some (Numeric c) \<Rightarrow>
                    WellFormed \<lparr>record_question = q, answer_text = a,
                               record_sources = used, record_confidence = Some c\<rparr>)))"

text \<open>
  Modelled from the spec: \<open>synthesize(question, retrieved_chunks)\<close> (its code is missing
  from the sources).  The result is paired with the prompts sent to the language-model
  service, in order: the calls it made.  \<open>build_prompt\<close> (the prompt's wording) and
  \<open>generate\<close> (the service) are parameters.  Without chunks no call is made and the fixed
  answer is returned; a malformed output falls back to the raw text with all supplied
  chunks as sources and no confidence; a failure of the service is an error value.
\<close>

definition synthesize ::
  "(string \<Rightarrow> string list \<Rightarrow> string) \<Rightarrow> (string \<Rightarrow> service_error + ModelOutput) \<Rightarrow>
   string \<Rightarrow> string list \<Rightarrow> string list \<times> (service_error + AnswerRecord)" where
  "synthesize build_prompt generate q retrieved_chunks =
     (if retrieved_chunks = []
      then ([], Inr \<lparr>record_question = q,
                     answer_text = ''insufficient information in document'',
                     record_sources = [], record_confidence = Some 0\<rparr>)
      else
        let prompt = build_prompt q retrieved_chunks in
        (case generate prompt of
           Inl e \<Rightarrow> ([prompt], Inl e)
         | Inr out \<Rightarrow>
             ([prompt],
              Inr (case parse_output q out of
                     WellFormed r \<Rightarrow> r
                   | Malformed raw \<Rightarrow>
                       \<lparr>record_question = q, answer_text = raw,
                        record_sources = retrieved_chunks, record_confidence = None\<rparr>))))"


section \<open>Concrete inputs for the example runs\<close>

text \<open>
  Stand-ins for the parameters: a URL test and a URL parser that accept
  \<open>https://host/path\<close> (the parser returns the part from the first slash after the
  host), formatters that name a band, a prompt builder and a language-model service that
  answers in free text without a confidence.
\<close>

definition starts_https :: "jsstring \<Rightarrow> bool" where
  "starts_https u = (take 8 u = [0x68, 0x74, 0x74, 0x70, 0x73, 0x3A, 0x2F, 0x2F])"

definition sample_pathname :: "jsstring \<Rightarrow> jsstring option" where
  "sample_pathname u =
     (if starts_https u then Some (dropWhile (\<lambda>c. c \<noteq> 0x2F) (drop 8 u)) else None)"

definition confidence_band :: "real \<Rightarrow> string" where
  "confidence_band c = (if 4 / 5 \<le> c then ''high'' else if 1 / 2 \<le> c then ''medium'' else ''low'')"

definition time_band :: "real \<Rightarrow> string" where
  "time_band t = (if t < 1000 then ''under a second'' else ''seconds'')"

definition plain_prompt :: "string \<Rightarrow> string list \<Rightarrow> string" where
  "plain_prompt q retrieved_chunks = concat retrieved_chunks @ '' | '' @ q"

definition free_text_service :: "string \<Rightarrow> service_error + ModelOutput" where
  "free_text_service prompt =
     Inr \<lparr>raw_text = ''It is 42.'', answer_field = Some ''It is 42.'',
          sources_field = Some [], confidence_field = None\<rparr>"

text \<open>
  The form value \<open>https://a\<close> with one question; the URL \<open>https://a/d\<close>; two answers with
  confidence 0.9 and none.
\<close>

definition sample_form :: "jsstring \<Rightarrow> FormData" where
  "sample_form q =
     \<lparr>documentUrl = [0x68, 0x74, 0x74, 0x70, 0x73, 0x3A, 0x2F, 0x2F, 0x61],
      questions = [\<lparr>question = q\<rparr>]\<rparr>"

definition sample_url :: jsstring where
  "sample_url = [0x68, 0x74, 0x74, 0x70, 0x73, 0x3A, 0x2F, 0x2F, 0x61, 0x2F, 0x64]"

definition sample_answers :: "AnswerResponse list" where
  "sample_answers =
     [\<lparr>answer_question = [0x51, 0x3F], answer = [0x41], sources = [[0x53]], confidence = Some (9 / 10)\<rparr>,
      \<lparr>answer_question = [0x52, 0x3F], answer = [0x42], sources = [], confidence = None\<rparr>]"

chapter \<open>Properties\<close>

section \<open>The field list of the form and the 1 to 10 bounds\<close>




lemma rendered_fields_click:
  "rendered_fields (addQuestion s) = rendered_fields s"
  "rendered_fields (removeQuestion index s) = rendered_fields s"
  by (simp_all add: addQuestion_def removeQuestion_def)






section \<open>Only requests within the bounds leave the form\<close>

lemma question_issues_Nil:
  "question_issues i q = [] \<longleftrightarrow> 1 \<le> length (question q) \<and> length (question q) \<le> 1000"
  by (cases "question q") (auto simp: question_issues_def)

lemma element_issues_Nil:
  "concat (map (\<lambda>(i, q). question_issues i q) (enumerate n qs)) = []
     \<longleftrightarrow> (\<forall>q \<in> set qs. 1 \<le> length (question q) \<and> length (question q) \<le> 1000)"
  by (induction qs arbitrary: n) (auto simp: question_issues_Nil)

lemma formSchema_Nil:
  "formSchema valid_url d = [] \<longleftrightarrow>
     valid_url (documentUrl d) \<and> 1 \<le> length (questions d) \<and> length (questions d) \<le> 10
     \<and> (\<forall>q \<in> set (questions d). 1 \<le> length (question q) \<and> length (question q) \<le> 1000)"
  unfolding formSchema_def append_is_Nil_conv element_issues_Nil
  by (cases "questions d") auto

text \<open>
  Claim C1.  A request leaves the form (is handed to the API client, before anything is
  ingested) only if its \<open>document_url\<close> passes the URL test, it has between 1 and 10
  questions and every question has between 1 and 1000 characters (UTF-16 code units, as
  \<open>.length\<close> counts); a form value outside these bounds ends in validation errors and
  nothing is sent; a value within them, with a bearer token set, is sent unchanged.
\<close>

theorem C1_request_bounds:
  "(submit_form valid_url bearerToken d = Dispatched request \<longrightarrow>
      valid_url (document_url request)
      \<and> 1 \<le> length (req_questions request) \<and> length (req_questions request) \<le> 10
      \<and> (\<forall>q \<in> set (req_questions request).
            1 \<le> length (question q) \<and> length (question q) \<le> 1000))
   \<and> (\<not> (valid_url (documentUrl d)
          \<and> 1 \<le> length (questions d) \<and> length (questions d) \<le> 10
          \<and> (\<forall>q \<in> set (questions d). 1 \<le> length (question q) \<and> length (question q) \<le> 1000))
        \<longrightarrow> (\<exists>issues. issues \<noteq> [] \<and> submit_form valid_url bearerToken d = ValidationErrors issues))
   \<and> (valid_url (documentUrl d)
        \<and> 1 \<le> length (questions d) \<and> length (questions d) \<le> 10
        \<and> (\<forall>q \<in> set (questions d). 1 \<le> length (question q) \<and> length (question q) \<le> 1000)
        \<and> bearerToken \<noteq> []
        \<longrightarrow> submit_form valid_url bearerToken d = Dispatched (handleFormSubmit d))"
proof (cases "formSchema valid_url d")
  case Nil
  with formSchema_Nil [of valid_url d]
  have ok: "valid_url (documentUrl d) \<and> 1 \<le> length (questions d) \<and> length (questions d) \<le> 10
     \<and> (\<forall>q \<in> set (questions d). 1 \<le> length (question q) \<and> length (question q) \<le> 1000)"
    by blast
  have sent: "request = handleFormSubmit d"
    if "submit_form valid_url bearerToken d = Dispatched request"
    using that Nil by (auto simp: submit_form_def mutationFn_def split: if_splits)
  have fields: "document_url (handleFormSubmit d) = documentUrl d"
    "req_questions (handleFormSubmit d) = questions d"
    by (simp_all add: handleFormSubmit_def)
  have first: "submit_form valid_url bearerToken d = Dispatched request \<longrightarrow>
      valid_url (document_url request)
      \<and> 1 \<le> length (req_questions request) \<and> length (req_questions request) \<le> 10
      \<and> (\<forall>q \<in> set (req_questions request).
            1 \<le> length (question q) \<and> length (question q) \<le> 1000)"
  proof
    assume "submit_form valid_url bearerToken d = Dispatched request"
    then have "request = handleFormSubmit d" by (rule sent)
    with ok show "valid_url (document_url request)
      \<and> 1 \<le> length (req_questions request) \<and> length (req_questions request) \<le> 10
      \<and> (\<forall>q \<in> set (req_questions request).
            1 \<le> length (question q) \<and> length (question q) \<le> 1000)"
      by (simp add: fields)
  qed
  have third: "bearerToken \<noteq> [] \<Longrightarrow>
      submit_form valid_url bearerToken d = Dispatched (handleFormSubmit d)"
    using Nil by (simp add: submit_form_def mutationFn_def)
  from first ok third show ?thesis by blast
next
  case (Cons issue rest)
  then have bad: "\<not> (valid_url (documentUrl d) \<and> 1 \<le> length (questions d) \<and> length (questions d) \<le> 10
     \<and> (\<forall>q \<in> set (questions d). 1 \<le> length (question q) \<and> length (question q) \<le> 1000))"
    using formSchema_Nil [of valid_url d] by simp
  have stopped: "submit_form valid_url bearerToken d = ValidationErrors (issue # rest)"
    using Cons by (simp add: submit_form_def)
  then have "\<exists>issues. issues \<noteq> [] \<and> submit_form valid_url bearerToken d = ValidationErrors issues"
    by blast
  with bad stopped show ?thesis by simp
qed

text \<open>
  A run of C1: with "starts with https://" as the URL test and a bearer token set, the
  form value \<open>https://a\<close> with the one question \<open>Q?\<close> is sent, and the same value with
  an empty question is stopped by validation.
\<close>

theorem C1_request_bounds_witness:
  "submit_form starts_https [0x74] (sample_form [0x51, 0x3F])
     = Dispatched (handleFormSubmit (sample_form [0x51, 0x3F]))
   \<and> starts_https (documentUrl (sample_form [0x51, 0x3F]))
   \<and> length (questions (sample_form [0x51, 0x3F])) = 1
   \<and> (\<exists>issues. issues \<noteq> [] \<and>
         submit_form starts_https [0x74] (sample_form []) = ValidationErrors issues)"
proof -
  have good: "starts_https (documentUrl (sample_form [0x51, 0x3F]))
      \<and> 1 \<le> length (questions (sample_form [0x51, 0x3F]))
      \<and> length (questions (sample_form [0x51, 0x3F])) \<le> 10
      \<and> (\<forall>q \<in> set (questions (sample_form [0x51, 0x3F])).
            1 \<le> length (question q) \<and> length (question q) \<le> 1000)
      \<and> [0x74 :: 16 word] \<noteq> []"
    by (simp add: starts_https_def sample_form_def)
  have bad: "\<not> (starts_https (documentUrl (sample_form []))
      \<and> 1 \<le> length (questions (sample_form []))
      \<and> length (questions (sample_form [])) \<le> 10
      \<and> (\<forall>q \<in> set (questions (sample_form [])).
            1 \<le> length (question q) \<and> length (question q) \<le> 1000))"
    by (simp add: sample_form_def)
  from C1_request_bounds [of starts_https "[0x74]" "sample_form [0x51, 0x3F]"] good
  have "submit_form starts_https [0x74] (sample_form [0x51, 0x3F])
     = Dispatched (handleFormSubmit (sample_form [0x51, 0x3F]))"
    by blast
  moreover from C1_request_bounds [of starts_https "[0x74]" "sample_form []"] bad
  have "\<exists>issues. issues \<noteq> [] \<and>
         submit_form starts_https [0x74] (sample_form []) = ValidationErrors issues"
    by blast
  moreover have "length (questions (sample_form [0x51, 0x3F])) = 1"
    by (simp add: sample_form_def)
  ultimately show ?thesis using good by blast
qed


section \<open>The summary's average confidence\<close>

lemma foldl_confidence_sum:
  "foldl (\<lambda>acc a. acc + confidence_or_zero a) s as
     = s + (\<Sum>a\<leftarrow>as. case confidence a of None \<Rightarrow> 0 | Some c \<Rightarrow> c)"
  by (induction as arbitrary: s) (auto simp: confidence_or_zero_def split: option.splits)

lemma summary_average_eq:
  "as \<noteq> [] \<Longrightarrow>
   summary_average formatConfidence as =
     Some (formatConfidence
       ((\<Sum>a\<leftarrow>as. case confidence a of None \<Rightarrow> 0 | Some c \<Rightarrow> c) / real (length as)))"
  by (simp add: summary_average_def js_divide_def foldl_confidence_sum)

text \<open>
  Claim C10.  \<open>AnswerDisplay\<close> returns \<open>null\<close> when \<open>answers\<close> is absent or empty.  For
  every non-empty \<open>answers\<close> the number of answers is not 0 and the summary's average
  confidence is \<open>formatConfidence\<close> of the sum of the confidences, an absent or zero one
  counting 0, divided by the number of answers.  That is the average of the view rendered
  when the URL parser accepts the document URL; when it does not, \<open>new URL\<close> throws and
  nothing is rendered.
\<close>

theorem C10_answer_display_average:
  "AnswerDisplay url_pathname formatConfidence formatProcessingTime None documentUrl_prop processingTime
       = Inr None
   \<and> AnswerDisplay url_pathname formatConfidence formatProcessingTime (Some []) documentUrl_prop processingTime
       = Inr None
   \<and> (as \<noteq> [] \<longrightarrow>
        real (length as) \<noteq> 0
        \<and> summary_average formatConfidence as =
            Some (formatConfidence
              ((\<Sum>a\<leftarrow>as. case confidence a of None \<Rightarrow> 0 | Some c \<Rightarrow> c) / real (length as))))
   \<and> (as \<noteq> [] \<and> url_pathname documentUrl_prop = Some pathname \<longrightarrow>
        (\<exists>v. AnswerDisplay url_pathname formatConfidence formatProcessingTime
                (Some as) documentUrl_prop processingTime = Inr (Some v)
            \<and> average_confidence v =
                Some (formatConfidence
                  ((\<Sum>a\<leftarrow>as. case confidence a of None \<Rightarrow> 0 | Some c \<Rightarrow> c)
                     / real (length as)))))
   \<and> (as \<noteq> [] \<and> url_pathname documentUrl_prop = None \<longrightarrow>
        AnswerDisplay url_pathname formatConfidence formatProcessingTime
          (Some as) documentUrl_prop processingTime = Inl TypeError)"
  by (simp add: AnswerDisplay_def summary_average_eq)

text \<open>
  A run of C10: two answers with confidence 0.9 and none, average 0.45, which the
  stand-in formatter calls low.
\<close>

theorem C10_answer_display_average_witness:
  "real (length sample_answers) = 2
   \<and> summary_average confidence_band sample_answers = Some ''low''
   \<and> map_sum id (map_option average_confidence)
        (AnswerDisplay sample_pathname confidence_band time_band (Some sample_answers) sample_url None)
       = Inr (Some (Some ''low''))"
proof -
  have hyp: "sample_answers \<noteq> [] \<and> sample_pathname sample_url = Some [0x2F, 0x64]"
    by (simp add: sample_answers_def sample_pathname_def sample_url_def starts_https_def)
  have val: "confidence_band ((\<Sum>a\<leftarrow>sample_answers. case confidence a of None \<Rightarrow> 0 | Some c \<Rightarrow> c)
                / real (length sample_answers)) = ''low''"
    by (simp add: sample_answers_def confidence_band_def)
  note run = C10_answer_display_average [where as = sample_answers and url_pathname = sample_pathname
      and documentUrl_prop = sample_url and pathname = "[0x2F, 0x64]"
      and formatConfidence = confidence_band and formatProcessingTime = time_band
      and processingTime = None]
  from run hyp have
    "summary_average confidence_band sample_answers =
       Some (confidence_band ((\<Sum>a\<leftarrow>sample_answers. case confidence a of None \<Rightarrow> 0 | Some c \<Rightarrow> c)
                / real (length sample_answers)))"
    by blast
  with val have summary: "summary_average confidence_band sample_answers = Some ''low''"
    by simp
  from run hyp obtain v where
    "AnswerDisplay sample_pathname confidence_band time_band (Some sample_answers) sample_url None
       = Inr (Some v)"
    "average_confidence v =
       Some (confidence_band ((\<Sum>a\<leftarrow>sample_answers. case confidence a of None \<Rightarrow> 0 | Some c \<Rightarrow> c)
                / real (length sample_answers)))"
    by blast
  with val have "map_sum id (map_option average_confidence)
        (AnswerDisplay sample_pathname confidence_band time_band (Some sample_answers) sample_url None)
       = Inr (Some (Some ''low''))"
    by simp
  moreover have "real (length sample_answers) = 2"
    by (simp add: sample_answers_def)
  ultimately show ?thesis using summary by simp
qed


section \<open>Chunking and reassembly\<close>

lemma windows_later:
  "windows w step t i start =
     \<lparr>chunk_index = i, text_span = take w (drop start t), char_start = start,
      char_end = min (start + w) (length t)\<rparr>
     # (if start + w < length t \<and> 0 < step then windows w step t (Suc i) (start + step) else [])"
  by (rule windows.simps)

lemma windows_cover:
  "ov + step = w \<Longrightarrow> 0 < step \<Longrightarrow> reassemble ov (windows w step t i start) = drop start t"
proof (induction w step t i start rule: windows.induct)
  case (1 w step t i start)
  let ?c = "\<lparr>chunk_index = i, text_span = take w (drop start t), char_start = start,
             char_end = min (start + w) (length t)\<rparr>"
  show ?case
  proof (cases "start + w < length t \<and> 0 < step")
    case False
    then have "windows w step t i start = [?c]"
      by (subst windows.simps) (simp only: False if_False)
    moreover from False \<open>0 < step\<close> have "length (drop start t) \<le> w"
      by simp
    ultimately show ?thesis
      by (simp add: reassemble_def)
  next
    case True
    let ?next = "windows w step t (Suc i) (start + step)"
    let ?A = "take w (drop (start + step) t)"
    from True have unfold: "windows w step t i start = ?c # ?next"
      by (subst windows.simps) simp
    obtain c' later where next_eq: "?next = c' # later" and span: "text_span c' = ?A"
      using windows_later [of w step t "Suc i" "start + step"] by simp
    let ?X = "concat (map (\<lambda>c'. drop ov (text_span c')) later)"
    from "1.IH" [OF True "1.prems"] next_eq span
    have ih: "?A @ ?X = drop (start + step) t"
      by (simp add: reassemble_def)
    from True "1.prems" have len: "ov \<le> length ?A"
      by auto
    then have "drop ov ?A @ ?X = drop ov (?A @ ?X)"
      by simp
    also have "\<dots> = drop (start + w) t"
    proof -
      from "1.prems" have "ov + (start + step) = start + w"
        by simp
      then show ?thesis
        by (simp only: ih drop_drop)
    qed
    finally have tail: "drop ov ?A @ ?X = drop w (drop start t)"
      by (simp add: ac_simps)
    have "reassemble ov (windows w step t i start) = take w (drop start t) @ drop ov ?A @ ?X"
      by (simp add: unfold next_eq span reassemble_def)
    also have "\<dots> = drop start t"
      by (simp only: tail append_take_drop_id)
    finally show ?thesis .
  qed
qed

text \<open>
  Claim C2.  For a non-empty text \<open>t\<close> and \<open>0 \<le> overlap < window_size\<close>, \<open>chunk\<close>
  returns chunks, and their texts in order, each later chunk without its \<open>overlap\<close>
  leading characters (the ones it repeats from its predecessor), concatenate to \<open>t\<close>.
\<close>

theorem C2_chunk_round_trip:
  assumes "t \<noteq> []" and "0 \<le> overlap" and "overlap < window_size"
  shows "\<exists>cs. chunk t window_size overlap = Inr cs \<and> reassemble (nat overlap) cs = t"
proof -
  from assms have "chunk t window_size overlap
      = Inr (windows (nat window_size) (nat (window_size - overlap)) t 0 0)"
    by (simp add: chunk_def)
  moreover from assms have "nat overlap + nat (window_size - overlap) = nat window_size"
    and "0 < nat (window_size - overlap)"
    by simp_all
  then have "reassemble (nat overlap) (windows (nat window_size) (nat (window_size - overlap)) t 0 0)
      = drop 0 t"
    by (rule windows_cover)
  ultimately show ?thesis by simp
qed

text \<open>
  A run of C2 on the text 0,1,...,6 with windows of 4 overlapping by 1: the chunks are
  0..3 and 3..6, reassembled to the text.
\<close>

theorem C2_chunk_round_trip_witness:
  "map text_span (projr (chunk [0, 1, 2, 3, 4, 5, 6 :: nat] 4 1)) = [[0, 1, 2, 3], [3, 4, 5, 6]]
   \<and> reassemble (nat 1) (projr (chunk [0, 1, 2, 3, 4, 5, 6 :: nat] 4 1)) = [0, 1, 2, 3, 4, 5, 6]"
proof -
  have "[0, 1, 2, 3, 4, 5, 6 :: nat] \<noteq> []" "(0::int) \<le> 1" "(1::int) < 4"
    by simp_all
  from C2_chunk_round_trip [OF this]
  obtain cs where cs: "chunk [0, 1, 2, 3, 4, 5, 6 :: nat] 4 1 = Inr cs"
    and whole: "reassemble (nat 1) cs = [0, 1, 2, 3, 4, 5, 6]"
    by blast
  have "chunk [0, 1, 2, 3, 4, 5, 6 :: nat] 4 1 = Inr (windows 4 3 [0, 1, 2, 3, 4, 5, 6] 0 0)"
    by (simp add: chunk_def)
  then have "map text_span (projr (chunk [0, 1, 2, 3, 4, 5, 6 :: nat] 4 1))
      = [[0, 1, 2, 3], [3, 4, 5, 6]]"
    by (simp add: windows.simps)
  with cs whole show ?thesis by simp
qed


section \<open>The synthesizer's fallback on malformed output\<close>

lemma parse_output_malformed:
  assumes "answer_field out = None \<or> sources_field out = None \<or> confidence_field out = None
           \<or> (\<exists>s. confidence_field out = Some (NonNumeric s))"
  shows "parse_output q out = Malformed (raw_text out)"
  using assms by (auto simp: parse_output_def split: option.splits confidence_value.splits)

text \<open>
  Claim C5.  For a non-empty list of retrieved chunks, when the language-model service
  returns an output that is malformed (the answer, the sources or the confidence is
  missing, or the confidence is not a number), \<open>synthesize\<close> returns (as a value, not an
  error) the Answer Record with the raw output text as answer, all supplied chunks as
  sources and no confidence.
\<close>

theorem C5_malformed_output_fallback:
  assumes "retrieved_chunks \<noteq> []"
    and "generate (build_prompt q retrieved_chunks) = Inr out"
    and "answer_field out = None \<or> sources_field out = None \<or> confidence_field out = None
         \<or> (\<exists>s. confidence_field out = Some (NonNumeric s))"
  shows "snd (synthesize build_prompt generate q retrieved_chunks) =
           Inr \<lparr>record_question = q, answer_text = raw_text out,
                record_sources = retrieved_chunks, record_confidence = None\<rparr>"
proof -
  from assms(3) have "parse_output q out = Malformed (raw_text out)"
    by (rule parse_output_malformed)
  with assms(1,2) show ?thesis
    by (simp add: synthesize_def)
qed

text \<open>
  A run of C5: the service answers in free text, with no confidence field.
\<close>

theorem C5_malformed_output_fallback_witness:
  "snd (synthesize plain_prompt free_text_service ''What is it?'' [''chunk one'', ''chunk two'']) =
     Inr \<lparr>record_question = ''What is it?'', answer_text = ''It is 42.'',
          record_sources = [''chunk one'', ''chunk two''], record_confidence = None\<rparr>"
proof -
  let ?out = "\<lparr>raw_text = ''It is 42.'', answer_field = Some ''It is 42.'',
          sources_field = Some [], confidence_field = None\<rparr>"
  have "[''chunk one'', ''chunk two''] \<noteq> []"
    and "free_text_service (plain_prompt ''What is it?'' [''chunk one'', ''chunk two'']) = Inr ?out"
    and "answer_field ?out = None \<or> sources_field ?out = None \<or> confidence_field ?out = None
         \<or> (\<exists>s. confidence_field ?out = Some (NonNumeric s))"
    by (simp_all add: free_text_service_def)
  from C5_malformed_output_fallback [where generate = free_text_service
      and build_prompt = plain_prompt and q = "''What is it?''"
      and retrieved_chunks = "[''chunk one'', ''chunk two'']" and out = ?out, OF this]
  show ?thesis
    by simp
qed

end
